theory Spec2Isabelle
  imports Main
begin

section \<open>Python values, dictionaries and exceptions\<close>

text \<open>
  The exceptions raised by \<^verbatim>\<open>rekall/plugin.py\<close> and by the Python operations it uses.
  A function that can raise returns \<open>error + 'a\<close>, with \<open>Inl\<close> for the exception.
\<close>

datatype error =
    InvalidArgs | PluginError | RuntimeError
  | TypeError | ValueError | KeyError | IndexError | AttributeError

text \<open>
  The Python objects that occur as column attributes, row values and declared types:
  \<open>None\<close>, integers, strings and class objects (a class is identified by a string).
\<close>

datatype pyval = PyNone | PyInt int | PyStr string | PyClass string

text \<open>Python truth value testing (\<^verbatim>\<open>if x:\<close>, \<^verbatim>\<open>not x\<close>).\<close>

fun truthy :: "pyval \<Rightarrow> bool" where
  "truthy PyNone = False"
| "truthy (PyInt n) = (n \<noteq> 0)"
| "truthy (PyStr s) = (s \<noteq> [])"
| "truthy (PyClass c) = True"

text \<open>\<^verbatim>\<open>d.get(k)\<close>: the value stored under \<open>k\<close>, or \<open>None\<close> when the key is missing.\<close>

definition dict_get :: "('k \<rightharpoonup> pyval) \<Rightarrow> 'k \<Rightarrow> pyval" where
  "dict_get d k = (case d k of None \<Rightarrow> PyNone | Some v \<Rightarrow> v)"


section \<open>The session\<close>

text \<open>
  Modelled from the spec: the profile and the session are external collaborators whose
  classes are not part of \<^verbatim>\<open>plugin.py\<close>. A profile resolves type names to classes
  (\<^verbatim>\<open>profile.object_classes\<close>). The session holds the cached parameter
  \<^verbatim>\<open>profile_obj\<close> (absent until resolved) and what autodetection finds for this
  image (\<open>None\<close> when no profile can be detected).
\<close>

record Profile =
  object_classes :: "string \<rightharpoonup> pyval"

record Session =
  profile_obj :: "Profile option"
  autodetected :: "Profile option"

text \<open>
  Modelled from the spec: \<^verbatim>\<open>session.HasParameter(name)\<close> looks into the parameter
  store without computing anything; only the parameter \<^verbatim>\<open>profile_obj\<close> is modelled.
\<close>

definition HasParameter :: "Session \<Rightarrow> string \<Rightarrow> bool" where
  "HasParameter s pname = (pname = ''profile_obj'' \<and> profile_obj s \<noteq> None)"

text \<open>
  Modelled from the spec: reading \<^verbatim>\<open>session.profile\<close> returns the cached profile, or
  runs autodetection once and caches what it found. The result \<open>None\<close> stands for the
  absent profile (a \<^verbatim>\<open>NoneObject\<close>: equal to \<^verbatim>\<open>None\<close> and false).
\<close>

definition get_profile :: "Session \<Rightarrow> Profile option \<times> Session" where
  "get_profile s =
     (case profile_obj s of
        Some p \<Rightarrow> (Some p, s)
      | None \<Rightarrow> (autodetected s, s\<lparr>profile_obj := autodetected s\<rparr>))"

text \<open>Modelled from the spec: \<^verbatim>\<open>session.profile = p\<close> installs \<open>p\<close> into the session.\<close>

definition set_profile :: "Profile \<Rightarrow> Session \<Rightarrow> Session" where
  "set_profile p s = s\<lparr>profile_obj := Some p\<rparr>"


section \<open>Command\<close>

text \<open>
  A keyword argument's value: \<^verbatim>\<open>None\<close>, a session object, or any other object.
  \<^verbatim>\<open>**kwargs\<close> is a dictionary from keyword to value.
\<close>

datatype arg = ArgNone | ArgSession Session | ArgOther pyval

type_synonym kwargs = "string \<rightharpoonup> arg"

text \<open>\<^verbatim>\<open>kwargs.pop(k, default)\<close>: the value and the dictionary without the key.\<close>

definition kwargs_pop :: "kwargs \<Rightarrow> string \<Rightarrow> arg \<Rightarrow> arg \<times> kwargs" where
  "kwargs_pop kw k dflt = ((case kw k of None \<Rightarrow> dflt | Some v \<Rightarrow> v), kw(k := None))"

record Command =
  session :: arg

text \<open>
  \<^verbatim>\<open>Command.__init__(self, **kwargs)\<close>. The call to \<^verbatim>\<open>object.__init__\<close> with the
  (then empty) keywords does nothing.
\<close>

definition Command_init :: "kwargs \<Rightarrow> error + Command" where
  "Command_init kwargs =
     (let (sess, kwargs') = kwargs_pop kwargs ''session'' ArgNone in
      if kwargs' \<noteq> Map.empty then Inl InvalidArgs
      else if sess = ArgNone then Inl InvalidArgs
      else Inr \<lparr>session = sess\<rparr>)"

text \<open>
  \<^verbatim>\<open>Command.is_active(cls, session)\<close>. An activation check may change the session
  (autodetection), so it returns the answer and the session.
\<close>

definition Command_is_active :: "Session \<Rightarrow> bool \<times> Session" where
  "Command_is_active s = (True, s)"


section \<open>ProfileCommand\<close>

text \<open>
  \<^verbatim>\<open>ProfileCommand.is_active(cls, session)\<close>; the class attribute
  \<^verbatim>\<open>PROFILE_REQUIRED\<close> is the first argument. Python's \<^verbatim>\<open>a and b\<close> reads
  \<^verbatim>\<open>session.profile\<close> only when \<open>a\<close> is true.
\<close>

definition ProfileCommand_is_active :: "bool \<Rightarrow> Session \<Rightarrow> bool \<times> Session" where
  "ProfileCommand_is_active PROFILE_REQUIRED s =
     (if PROFILE_REQUIRED then
        (let (b, s1) = Command_is_active s in
         if b then (let (p, s2) = get_profile s1 in (p \<noteq> None, s2))
         else (False, s1))
      else (True, s))"

text \<open>
  An instance of \<^verbatim>\<open>ProfileCommand\<close>. The attribute \<^verbatim>\<open>profile\<close> is \<open>None\<close> as
  long as the constructor has not assigned it. The field \<open>session\<close> holds the session as
  the constructor left it: the session object is shared, and a later state of it is
  passed to whoever uses it next.
\<close>

record ProfileCommand = Command +
  profile :: "Profile option"

text \<open>
  \<^verbatim>\<open>ProfileCommand.__init__(self, profile=None, **kwargs)\<close>. An attribute access on a
  \<open>session\<close> that is no session object raises \<^verbatim>\<open>AttributeError\<close>.
\<close>

definition ProfileCommand_init ::
  "bool \<Rightarrow> Profile option \<Rightarrow> kwargs \<Rightarrow> error + ProfileCommand" where
  "ProfileCommand_init PROFILE_REQUIRED prof kwargs =
     (case Command_init kwargs of
        Inl e \<Rightarrow> Inl e
      | Inr self \<Rightarrow>
          (case session self of
             ArgSession s \<Rightarrow>
               (let s1 = (case prof of Some p \<Rightarrow> set_profile p s | None \<Rightarrow> s) in
                if HasParameter s1 ''profile_obj'' then
                  (let (p, s2) = get_profile s1 in
                   Inr \<lparr>session = ArgSession s2, profile = p\<rparr>)
                else if PROFILE_REQUIRED then
                  (let (p, s2) = get_profile s1 in
                   if p = None then Inl PluginError
                   else Inr \<lparr>session = ArgSession s2, profile = p\<rparr>)
                else Inr \<lparr>session = ArgSession s1, profile = None\<rparr>)
           | _ \<Rightarrow> Inl AttributeError))"


section \<open>PluginHeader\<close>

text \<open>
  A column specification is a dictionary (\<^verbatim>\<open>cname\<close>, \<^verbatim>\<open>name\<close>, \<^verbatim>\<open>type\<close> and
  whatever else the plugin declares). An argument of the constructor that is no
  dictionary (the old tuple format) is kept as \<open>NotDict\<close>.
\<close>

type_synonym column = "string \<rightharpoonup> pyval"

datatype column_arg = Dict column | NotDict pyval

record PluginHeader =
  header :: "column_arg list"
  by_cname :: "pyval \<rightharpoonup> column"
  by_name :: "pyval \<rightharpoonup> column"

text \<open>
  The loop of \<^verbatim>\<open>PluginHeader.__init__\<close> over the columns, on the two dictionaries
  \<^verbatim>\<open>by_cname\<close> and \<^verbatim>\<open>by_name\<close>. The duplicate test
  \<^verbatim>\<open>if self.by_cname.get(cname)\<close> is the truth value of the column stored under
  \<open>cname\<close>: a dictionary is true when it is not empty.
\<close>

fun PluginHeader_loop ::
  "column_arg list \<Rightarrow> (pyval \<rightharpoonup> column) \<Rightarrow> (pyval \<rightharpoonup> column) \<Rightarrow>
     error + (pyval \<rightharpoonup> column) \<times> (pyval \<rightharpoonup> column)" where
  "PluginHeader_loop [] bc bn = Inr (bc, bn)"
| "PluginHeader_loop (NotDict v # columns) bc bn = Inl TypeError"
| "PluginHeader_loop (Dict column # columns) bc bn =
     (let cname = dict_get column ''cname'' in
      if \<not> truthy cname then Inl ValueError
      else if (case bc cname of None \<Rightarrow> False | Some c \<Rightarrow> c \<noteq> Map.empty) then Inl ValueError
      else
        (let bc' = bc(cname \<mapsto> column);
             name = dict_get column ''name'';
             bn' = (if truthy name then bn(name \<mapsto> column) else bn)
         in PluginHeader_loop columns bc' bn'))"

text \<open>\<^verbatim>\<open>PluginHeader.__init__(self, *columns)\<close>.\<close>

definition PluginHeader_init :: "column_arg list \<Rightarrow> error + PluginHeader" where
  "PluginHeader_init columns =
     (case PluginHeader_loop columns Map.empty Map.empty of
        Inl e \<Rightarrow> Inl e
      | Inr (bc, bn) \<Rightarrow> Inr \<lparr>header = columns, by_cname = bc, by_name = bn\<rparr>)"


text \<open>\<^verbatim>\<open>PluginHeader.find_column(self, name)\<close>; \<open>None\<close> is Python's \<^verbatim>\<open>None\<close>.\<close>

definition find_column :: "PluginHeader \<Rightarrow> pyval \<Rightarrow> column option" where
  "find_column h name = (case by_cname h name of Some c \<Rightarrow> Some c | None \<Rightarrow> by_name h name)"

text \<open>
  \<^verbatim>\<open>PluginHeader.dictify(self, row)\<close>: the loop over \<^verbatim>\<open>enumerate(row)\<close>, from the
  index \<open>idx\<close> on. \<^verbatim>\<open>self.header[idx]\<close> raises \<^verbatim>\<open>IndexError\<close> beyond the last
  column, and \<^verbatim>\<open>column["cname"]\<close> raises \<^verbatim>\<open>KeyError\<close> when the key is missing.
\<close>

fun dictify_loop ::
  "PluginHeader \<Rightarrow> nat \<Rightarrow> pyval list \<Rightarrow> (pyval \<rightharpoonup> pyval) \<Rightarrow> error + (pyval \<rightharpoonup> pyval)" where
  "dictify_loop h idx [] result = Inr result"
| "dictify_loop h idx (v # row) result =
     (if idx < length (header h) then
        (case header h ! idx of
           NotDict t \<Rightarrow> Inl TypeError
         | Dict column \<Rightarrow>
             (case column ''cname'' of
                None \<Rightarrow> Inl KeyError
              | Some k \<Rightarrow> dictify_loop h (Suc idx) row (result(k \<mapsto> v))))
      else Inl IndexError)"

definition dictify :: "PluginHeader \<Rightarrow> pyval list \<Rightarrow> error + (pyval \<rightharpoonup> pyval)" where
  "dictify h row = dictify_loop h 0 row Map.empty"


section \<open>TypedProfileCommand and Producer\<close>

text \<open>
  An instance of a \<^verbatim>\<open>TypedProfileCommand\<close> subclass; \<^verbatim>\<open>table_header\<close> is the class
  attribute the subclass declares. The constructor is the inherited one.
\<close>

record TypedProfileCommand = ProfileCommand +
  table_header :: PluginHeader

definition TypedProfileCommand_init ::
  "PluginHeader \<Rightarrow> bool \<Rightarrow> Profile option \<Rightarrow> kwargs \<Rightarrow> error + TypedProfileCommand" where
  "TypedProfileCommand_init th PROFILE_REQUIRED prof kwargs =
     (case ProfileCommand_init PROFILE_REQUIRED prof kwargs of
        Inl e \<Rightarrow> Inl e
      | Inr self \<Rightarrow> Inr \<lparr>session = session self, profile = profile self, table_header = th\<rparr>)"

text \<open>
  \<^verbatim>\<open>collect()\<close> is abstract: the rows it yields are an argument. What a generator
  function produces is the list of the values it yields and the exception that ended
  it, if one did.
\<close>

type_synonym 'a generated = "'a list \<times> error option"

text \<open>\<^verbatim>\<open>TypedProfileCommand.collect_as_dicts(self)\<close>.\<close>

fun collect_as_dicts ::
  "'a TypedProfileCommand_scheme \<Rightarrow> pyval list list \<Rightarrow> (pyval \<rightharpoonup> pyval) generated" where
  "collect_as_dicts self [] = ([], None)"
| "collect_as_dicts self (row # rows) =
     (case dictify (table_header self) row of
        Inl e \<Rightarrow> ([], Some e)
      | Inr d \<Rightarrow> (let (ds, e) = collect_as_dicts self rows in (d # ds, e)))"

text \<open>
  The renderer is an output sink: it is the list of the calls made on it so far.
\<close>

datatype renderer_call = Table_header PluginHeader | Table_row "pyval list"

fun render_rows :: "pyval list list \<Rightarrow> renderer_call list \<Rightarrow> renderer_call list" where
  "render_rows [] renderer = renderer"
| "render_rows (row # rows) renderer = render_rows rows (renderer @ [Table_row row])"

text \<open>\<^verbatim>\<open>TypedProfileCommand.render(self, renderer)\<close>.\<close>

definition render ::
  "'a TypedProfileCommand_scheme \<Rightarrow> pyval list list \<Rightarrow> renderer_call list \<Rightarrow> renderer_call list" where
  "render self rows renderer = render_rows rows (renderer @ [Table_header (table_header self)])"

text \<open>
  \<^verbatim>\<open>TypedProfileCommand.reflect(self, member)\<close>. A class object is an instance of
  \<^verbatim>\<open>type\<close>, a string of \<^verbatim>\<open>basestring\<close>; reading \<^verbatim>\<open>self.profile\<close> on an instance
  whose constructor never assigned it raises \<^verbatim>\<open>AttributeError\<close>. A function that
  ends without \<^verbatim>\<open>return\<close> returns \<^verbatim>\<open>None\<close>.
\<close>

definition reflect :: "'a TypedProfileCommand_scheme \<Rightarrow> pyval \<Rightarrow> error + pyval" where
  "reflect self member =
     (case by_cname (table_header self) member of
        None \<Rightarrow> Inl KeyError
      | Some column \<Rightarrow>
          if column = Map.empty then Inl KeyError
          else
            (let t = dict_get column ''type'' in
             case t of
               PyClass c \<Rightarrow> Inr t
             | _ \<Rightarrow>
                 if \<not> truthy t then Inr PyNone
                 else
                   (case t of
                      PyStr n \<Rightarrow>
                        (case profile self of
                           None \<Rightarrow> Inl AttributeError
                         | Some p \<Rightarrow> Inr (dict_get (object_classes p) n))
                    | _ \<Rightarrow> Inr PyNone)))"

text \<open>\<^verbatim>\<open>Producer.produce(self)\<close>: \<^verbatim>\<open>row[0]\<close> raises \<^verbatim>\<open>IndexError\<close> on an empty row.\<close>

fun produce :: "pyval list list \<Rightarrow> pyval generated" where
  "produce [] = ([], None)"
| "produce (row # rows) =
     (case row of
        [] \<Rightarrow> ([], Some IndexError)
      | x # _ \<Rightarrow> (let (ys, e) = produce rows in (x # ys, e)))"


section \<open>PluginMetadataDatabase\<close>

text \<open>
  A registered plugin class, as far as the database looks at it: its name and its
  \<^verbatim>\<open>is_active\<close> class method. \<^verbatim>\<open>config.CommandMetadata\<close> wraps a class; its other
  attributes are the extension of the record.
\<close>

datatype plugin_cls = PluginCls (plugin_name: string) (is_active: "Session \<Rightarrow> bool \<times> Session")

record CommandMetadata =
  plugin_cls :: plugin_cls






section \<open>Auxiliary notions and example data\<close>

text \<open>Every column stored in a \<^verbatim>\<open>by_cname\<close> dictionary is a non-empty dictionary.\<close>

definition nonempty_cols :: "(pyval \<rightharpoonup> column) \<Rightarrow> bool" where
  "nonempty_cols bc = (\<forall>k c. bc k = Some c \<longrightarrow> c \<noteq> Map.empty)"

text \<open>
  The implementations registered under one name whose activation check, asked on the
  session \<open>s\<close>, answers true.
\<close>

definition reports_active :: "Session \<Rightarrow> 'm CommandMetadata_scheme \<Rightarrow> bool" where
  "reports_active s md = fst (is_active (plugin_cls md) s)"


text \<open>
  The activation checks of a list of implementations are independent when the change
  one check makes to the session never changes the answer of another (or of itself).
\<close>

definition independent_checks :: "'m CommandMetadata_scheme list \<Rightarrow> bool" where
  "independent_checks mds =
     (\<forall>c\<in>set mds. \<forall>c'\<in>set mds. \<forall>t.
        reports_active (snd (is_active (plugin_cls c) t)) c' = reports_active t c')"

text \<open>The schema of the example scenario of the specification.\<close>

definition offset_column :: column where
  "offset_column = [''cname'' \<mapsto> PyStr ''offset'', ''name'' \<mapsto> PyStr ''Offset'',
                    ''type'' \<mapsto> PyStr ''address'']"

definition name_column :: column where
  "name_column = [''cname'' \<mapsto> PyStr ''name'', ''name'' \<mapsto> PyStr ''Name'']"

definition example_header :: PluginHeader where
  "example_header =
     \<lparr>header = [Dict offset_column, Dict name_column],
      by_cname = [PyStr ''offset'' \<mapsto> offset_column, PyStr ''name'' \<mapsto> name_column],
      by_name = [PyStr ''Offset'' \<mapsto> offset_column, PyStr ''Name'' \<mapsto> name_column]\<rparr>"

text \<open>Two profiles, of which only the first defines the type \<^verbatim>\<open>address\<close>.\<close>

definition profile_one :: Profile where
  "profile_one = \<lparr>object_classes = [''address'' \<mapsto> PyClass ''Address'']\<rparr>"

definition profile_two :: Profile where
  "profile_two = \<lparr>object_classes = Map.empty\<rparr>"

definition session_one :: Session where
  "session_one = \<lparr>profile_obj = Some profile_one, autodetected = None\<rparr>"

definition session_two :: Session where
  "session_two = \<lparr>profile_obj = Some profile_two, autodetected = None\<rparr>"

definition no_profile_session :: Session where
  "no_profile_session = \<lparr>profile_obj = None, autodetected = None\<rparr>"

definition example_plugin :: TypedProfileCommand where
  "example_plugin =
     \<lparr>session = ArgSession session_one, profile = Some profile_one,
      table_header = example_header\<rparr>"








section \<open>Construction of commands\<close>

lemma Command_init_unrecognized:
  assumes "k \<in> dom kwargs" "k \<noteq> ''session''"
  shows "Command_init kwargs = Inl InvalidArgs"
proof -
  have "kwargs(''session'' := None) \<noteq> Map.empty"
  proof
    assume e: "kwargs(''session'' := None) = Map.empty"
    show False using fun_cong[OF e, of k] assms by auto
  qed
  then show ?thesis
    by (simp add: Command_init_def kwargs_pop_def)
qed

lemma Command_init_no_session:
  "kwargs ''session'' = None \<or> kwargs ''session'' = Some ArgNone \<Longrightarrow>
   Command_init kwargs = Inl InvalidArgs"
  by (auto simp: Command_init_def kwargs_pop_def)

lemma Command_init_session [simp]:
  "Command_init [''session'' \<mapsto> ArgSession s] = Inr \<lparr>session = ArgSession s\<rparr>"
  by (simp add: Command_init_def kwargs_pop_def)

lemma Command_init_Inr:
  "Command_init kwargs = Inr self \<longleftrightarrow>
     (\<exists>v. v \<noteq> ArgNone \<and> kwargs = [''session'' \<mapsto> v] \<and> self = \<lparr>session = v\<rparr>)"
proof
  assume a: "Command_init kwargs = Inr self"
  then have e: "kwargs(''session'' := None) = Map.empty"
    by (auto simp: Command_init_def kwargs_pop_def split: if_splits)
  from a obtain v where v: "kwargs ''session'' = Some v" "v \<noteq> ArgNone" "self = \<lparr>session = v\<rparr>"
    by (auto simp: Command_init_def kwargs_pop_def split: if_splits option.splits)
  have "kwargs = [''session'' \<mapsto> v]"
  proof
    fix x show "kwargs x = [''session'' \<mapsto> v] x"
      using fun_cong[OF e, of x] v(1) by (cases "x = ''session''") auto
  qed
  with v show "\<exists>v. v \<noteq> ArgNone \<and> kwargs = [''session'' \<mapsto> v] \<and> self = \<lparr>session = v\<rparr>"
    by blast
next
  assume "\<exists>v. v \<noteq> ArgNone \<and> kwargs = [''session'' \<mapsto> v] \<and> self = \<lparr>session = v\<rparr>"
  then show "Command_init kwargs = Inr self"
    by (auto simp: Command_init_def kwargs_pop_def)
qed

lemma Command_init_Inl: "Command_init kwargs = Inl e \<Longrightarrow> e = InvalidArgs"
  by (auto simp: Command_init_def kwargs_pop_def split: if_splits)

text \<open>
  C7: a keyword that the constructor does not take reaches \<^verbatim>\<open>Command.__init__\<close> and
  raises \<^verbatim>\<open>InvalidArgs\<close>, and so does a construction without a session (none given,
  or \<^verbatim>\<open>None\<close> given). The subclass constructors call \<^verbatim>\<open>Command.__init__\<close> first, so
  they fail with the same error and produce no instance. For \<^verbatim>\<open>ProfileCommand\<close> the
  keyword \<^verbatim>\<open>profile\<close> is bound to the parameter \<open>prof\<close> and is not part of \<open>kwargs\<close>.
\<close>

theorem construction_InvalidArgs:
  assumes "(\<exists>k\<in>dom kwargs. k \<noteq> ''session'') \<or> kwargs ''session'' = None \<or>
           kwargs ''session'' = Some ArgNone"
  shows "Command_init kwargs = Inl InvalidArgs \<and>
         ProfileCommand_init PROFILE_REQUIRED prof kwargs = Inl InvalidArgs \<and>
         TypedProfileCommand_init th PROFILE_REQUIRED prof kwargs = Inl InvalidArgs"
proof -
  have "Command_init kwargs = Inl InvalidArgs"
    using assms Command_init_unrecognized Command_init_no_session by blast
  then show ?thesis
    by (simp add: ProfileCommand_init_def TypedProfileCommand_init_def)
qed

theorem construction_InvalidArgs_witness:
  "''verbose'' \<in> dom [''session'' \<mapsto> ArgSession no_profile_session,
                       ''verbose'' \<mapsto> ArgOther (PyInt 1)] \<and>
   Command_init [''session'' \<mapsto> ArgSession no_profile_session,
                 ''verbose'' \<mapsto> ArgOther (PyInt 1)] = Inl InvalidArgs \<and>
   ProfileCommand_init True (Some profile_one) Map.empty = Inl InvalidArgs"
  using construction_InvalidArgs
          [of "[''session'' \<mapsto> ArgSession no_profile_session,
                ''verbose'' \<mapsto> ArgOther (PyInt 1)]" True None example_header]
        construction_InvalidArgs [of Map.empty True "Some profile_one" example_header]
  by simp


section \<open>Activation\<close>

text \<open>
  C6: the activation checks are total functions into the booleans. The base class
  answers true on every session. \<^verbatim>\<open>ProfileCommand\<close> answers true without looking at
  the session when \<^verbatim>\<open>PROFILE_REQUIRED\<close> is false; when it is true, the answer is
  whether reading \<^verbatim>\<open>session.profile\<close> yields a profile, that is, whether the session
  has a resolved profile once the check is done; a session without a profile and
  without a detectable one gets the answer false and is left as it was.
\<close>

theorem is_active_answers:
  "Command_is_active s = (True, s) \<and>
   ProfileCommand_is_active False s = (True, s) \<and>
   ProfileCommand_is_active True s = (fst (get_profile s) \<noteq> None, snd (get_profile s)) \<and>
   (fst (ProfileCommand_is_active True s) \<longleftrightarrow>
      profile_obj (snd (ProfileCommand_is_active True s)) \<noteq> None) \<and>
   (profile_obj s = None \<and> autodetected s = None \<longrightarrow>
      ProfileCommand_is_active True s = (False, s))"
  by (auto simp: ProfileCommand_is_active_def Command_is_active_def get_profile_def
           split: option.splits)

theorem is_active_answers_witness:
  "ProfileCommand_is_active True no_profile_session = (False, no_profile_session) \<and>
   ProfileCommand_is_active True session_one = (True, session_one)"
  using is_active_answers [of no_profile_session] is_active_answers [of session_one]
  by (simp add: no_profile_session_def session_one_def get_profile_def)

text \<open>
  C5: on a session that has no profile and for which autodetection finds none, the
  construction of a profile-requiring plugin without a profile raises
  \<^verbatim>\<open>PluginError\<close>; with a profile given, the construction succeeds, the profile is
  installed into the session (it is what \<^verbatim>\<open>session.profile\<close> then returns) and it is
  the profile of the instance.
\<close>

theorem ProfileCommand_init_profile:
  assumes "profile_obj s = None" and "autodetected s = None"
  shows "ProfileCommand_init True None [''session'' \<mapsto> ArgSession s] = Inl PluginError \<and>
         ProfileCommand_init True (Some p) [''session'' \<mapsto> ArgSession s] =
           Inr \<lparr>session = ArgSession (set_profile p s), profile = Some p\<rparr> \<and>
         fst (get_profile (set_profile p s)) = Some p"
  using assms
  by (simp add: ProfileCommand_init_def HasParameter_def get_profile_def set_profile_def)

theorem ProfileCommand_init_profile_witness:
  "profile_obj no_profile_session = None \<and> autodetected no_profile_session = None \<and>
   ProfileCommand_init True None [''session'' \<mapsto> ArgSession no_profile_session] =
     Inl PluginError \<and>
   ProfileCommand_init True (Some profile_one) [''session'' \<mapsto> ArgSession no_profile_session] =
     Inr \<lparr>session = ArgSession session_one, profile = Some profile_one\<rparr>"
  using ProfileCommand_init_profile [of no_profile_session profile_one]
  by (simp add: no_profile_session_def session_one_def set_profile_def)

section \<open>The table header\<close>

lemma truthy_cname_nonempty: "truthy (dict_get c k) \<Longrightarrow> c \<noteq> Map.empty"
  by (auto simp: dict_get_def)

lemma nonempty_cols_upd:
  assumes "nonempty_cols bc" "truthy (dict_get c ''cname'')"
  shows "nonempty_cols (bc(k \<mapsto> c))"
proof -
  have "c \<noteq> Map.empty" using assms(2) by (rule truthy_cname_nonempty)
  then show ?thesis using assms(1) unfolding nonempty_cols_def by (simp add: fun_upd_apply)
qed

lemma dup_test: "nonempty_cols bc \<Longrightarrow> (case bc k of None \<Rightarrow> False | Some c \<Rightarrow> c \<noteq> Map.empty) = (bc k \<noteq> None)"
  by (auto simp: nonempty_cols_def split: option.splits)

lemma loop_step:
  assumes "nonempty_cols bc"
  shows "PluginHeader_loop (Dict c # cols) bc bn =
     (if \<not> truthy (dict_get c ''cname'') \<or> bc (dict_get c ''cname'') \<noteq> None then Inl ValueError
      else PluginHeader_loop cols (bc(dict_get c ''cname'' \<mapsto> c))
             (if truthy (dict_get c ''name'') then bn(dict_get c ''name'' \<mapsto> c) else bn))"
  using dup_test[OF assms] by (simp add: Let_def)

lemma fresh_upd:
  "(\<forall>x\<in>A. P x \<and> (bc(k \<mapsto> c)) (f x) = None) \<longleftrightarrow> (\<forall>x\<in>A. P x \<and> bc (f x) = None) \<and> k \<notin> f ` A"
proof -
  have "\<And>x. ((bc(k \<mapsto> c)) (f x) = None) = (f x \<noteq> k \<and> bc (f x) = None)"
    by (simp add: fun_upd_apply)
  then show ?thesis by (simp only:) blast
qed

lemma loop_Cons:
  assumes "nonempty_cols bc"
  shows "PluginHeader_loop (map Dict (c # cols)) bc bn =
     (if \<not> truthy (dict_get c ''cname'') \<or> bc (dict_get c ''cname'') \<noteq> None then Inl ValueError
      else PluginHeader_loop (map Dict cols) (bc(dict_get c ''cname'' \<mapsto> c))
             (if truthy (dict_get c ''name'') then bn(dict_get c ''name'' \<mapsto> c) else bn))"
  by (simp only: list.map loop_step[OF assms])


lemma loop_Inr_iff:
  "nonempty_cols bc \<Longrightarrow>
   (\<exists>r. PluginHeader_loop (map Dict cols) bc bn = Inr r) \<longleftrightarrow>
   (\<forall>c\<in>set cols. truthy (dict_get c ''cname'') \<and> bc (dict_get c ''cname'') = None) \<and>
   distinct (map (\<lambda>c. dict_get c ''cname'') cols)"
proof (induction cols arbitrary: bc bn)
  case Nil
  then show ?case by simp
next
  case (Cons c cols)
  let ?k = "dict_get c ''cname''"
  note step = loop_Cons[OF Cons.prems(1), of c cols bn]
  show ?case
  proof (cases "\<not> truthy ?k \<or> bc ?k \<noteq> None")
    case True
    then have l: "\<not> (\<exists>r. PluginHeader_loop (map Dict (c # cols)) bc bn = Inr r)"
      unfolding step by simp
    have r: "\<not> (\<forall>c'\<in>set (c # cols). truthy (dict_get c' ''cname'') \<and> bc (dict_get c' ''cname'') = None)"
      using True by auto
    show ?thesis using l r by blast
  next
    case False
    then have inv': "nonempty_cols (bc(?k \<mapsto> c))"
      using nonempty_cols_upd[OF Cons.prems(1)] by simp
    have step': "PluginHeader_loop (map Dict (c # cols)) bc bn =
        PluginHeader_loop (map Dict cols) (bc(?k \<mapsto> c))
          (if truthy (dict_get c ''name'') then bn(dict_get c ''name'' \<mapsto> c) else bn)"
      using False unfolding step by simp
    have "(\<forall>c'\<in>set (c # cols). truthy (dict_get c' ''cname'') \<and> bc (dict_get c' ''cname'') = None) \<and>
          distinct (map (\<lambda>c. dict_get c ''cname'') (c # cols)) \<longleftrightarrow>
          ((\<forall>c'\<in>set cols. truthy (dict_get c' ''cname'') \<and> bc (dict_get c' ''cname'') = None) \<and>
            ?k \<notin> (\<lambda>c. dict_get c ''cname'') ` set cols) \<and>
          distinct (map (\<lambda>c. dict_get c ''cname'') cols)"
      using False by auto
    then show ?thesis
      unfolding step' Cons.IH[OF inv'] fresh_upd by simp
  qed
qed

lemma loop_result:
  "nonempty_cols bc \<Longrightarrow> PluginHeader_loop (map Dict cols) bc bn = Inr (bc', bn') \<Longrightarrow>
   bc' = bc ++ map_of (map (\<lambda>c. (dict_get c ''cname'', c)) cols) \<and>
   dom bn' = dom bn \<union> {n. \<exists>c\<in>set cols. dict_get c ''name'' = n \<and> truthy n}"
proof (induction cols arbitrary: bc bn)
  case Nil
  then show ?case by simp
next
  case (Cons c cols)
  let ?k = "dict_get c ''cname''"
  let ?bn1 = "if truthy (dict_get c ''name'') then bn(dict_get c ''name'' \<mapsto> c) else bn"
  have ok: "(\<forall>c'\<in>set (c # cols). truthy (dict_get c' ''cname'') \<and> bc (dict_get c' ''cname'') = None) \<and>
   distinct (map (\<lambda>c. dict_get c ''cname'') (c # cols))"
    using loop_Inr_iff[OF Cons.prems(1), of "c # cols" bn] Cons.prems(2) by blast
  then have t: "truthy ?k" and fresh: "bc ?k = None" and nk: "?k \<notin> (\<lambda>c. dict_get c ''cname'') ` set cols"
    by auto
  have inv': "nonempty_cols (bc(?k \<mapsto> c))"
    using nonempty_cols_upd[OF Cons.prems(1) t] .
  have step: "PluginHeader_loop (map Dict cols) (bc(?k \<mapsto> c)) ?bn1 = Inr (bc', bn')"
    using t fresh Cons.prems(2) unfolding loop_Cons[OF Cons.prems(1), of c cols bn] by simp
  from Cons.IH[OF inv' step]
  have e: "bc' = bc(?k \<mapsto> c) ++ map_of (map (\<lambda>c. (dict_get c ''cname'', c)) cols)"
    and f: "dom bn' = dom ?bn1 \<union> {n. \<exists>c\<in>set cols. dict_get c ''name'' = n \<and> truthy n}"
    by blast+
  have "?k \<notin> dom (map_of (map (\<lambda>c. (dict_get c ''cname'', c)) cols))"
    using nk by (simp add: dom_map_of_conv_image_fst image_image)
  then have 3: "bc' = bc ++ map_of (map (\<lambda>c. (dict_get c ''cname'', c)) (c # cols))"
    using e by (simp add: map_add_upd_left)
  have 4: "dom bn' = dom bn \<union> {n. \<exists>c\<in>set (c # cols). dict_get c ''name'' = n \<and> truthy n}"
    unfolding f by auto
  show ?case using 3 4 by blast
qed

lemma nonempty_cols_empty: "nonempty_cols Map.empty"
  by (simp add: nonempty_cols_def)

lemma PluginHeader_init_Inr:
  assumes "PluginHeader_init (map Dict cols) = Inr h"
  shows "(\<forall>c\<in>set cols. truthy (dict_get c ''cname'')) \<and>
         distinct (map (\<lambda>c. dict_get c ''cname'') cols) \<and>
         header h = map Dict cols \<and>
         by_cname h = map_of (map (\<lambda>c. (dict_get c ''cname'', c)) cols) \<and>
         dom (by_name h) = {n. \<exists>c\<in>set cols. dict_get c ''name'' = n \<and> truthy n}"
proof -
  from assms obtain bc bn where
    l: "PluginHeader_loop (map Dict cols) Map.empty Map.empty = Inr (bc, bn)"
    and h: "h = \<lparr>header = map Dict cols, by_cname = bc, by_name = bn\<rparr>"
    by (auto simp: PluginHeader_init_def split: sum.splits)
  have ok: "(\<forall>c\<in>set cols. truthy (dict_get c ''cname'')) \<and>
         distinct (map (\<lambda>c. dict_get c ''cname'') cols)"
    using loop_Inr_iff[OF nonempty_cols_empty, of cols Map.empty] l by auto
  from loop_result[OF nonempty_cols_empty l] ok h show ?thesis by simp
qed



text \<open>
  A header that the constructor accepts was built from dictionaries only, so the
  statements below about \<open>map Dict cols\<close> cover every constructed header.
\<close>

lemma PluginHeader_loop_all_dicts:
  "PluginHeader_loop columns bc bn = Inr r \<Longrightarrow> \<forall>a\<in>set columns. \<exists>c. a = Dict c"
  by (induction columns bc bn rule: PluginHeader_loop.induct)
     (auto simp: Let_def split: if_splits)

lemma PluginHeader_init_all_dicts:
  assumes "PluginHeader_init columns = Inr h"
  shows "\<exists>cols. columns = map Dict cols"
proof -
  obtain r where "PluginHeader_loop columns Map.empty Map.empty = Inr r"
    using assms by (auto simp: PluginHeader_init_def split: sum.splits)
  then have "\<forall>a\<in>set columns. \<exists>c. a = Dict c" by (rule PluginHeader_loop_all_dicts)
  then have "\<forall>a\<in>set columns. a \<in> range Dict" by blast
  then have "set columns \<subseteq> range Dict" by blast
  then show ?thesis by (metis ex_map_conv subsetD rangeE)
qed




lemma example_header_init:
  "PluginHeader_init [Dict offset_column, Dict name_column] = Inr example_header"
  by (simp add: PluginHeader_init_def example_header_def dict_get_def Let_def
        offset_column_def name_column_def)



section \<open>Rendering and producing\<close>

lemma render_rows_append: "render_rows rows renderer = renderer @ map Table_row rows"
  by (induction rows arbitrary: renderer) simp_all

text \<open>
  C8: on a renderer that has received the calls \<open>renderer\<close>, the default
  \<^verbatim>\<open>render\<close> adds one \<^verbatim>\<open>table_header\<close> call with the schema and then one
  \<^verbatim>\<open>table_row\<close> call for each row of \<^verbatim>\<open>collect()\<close>, in order, with the values of
  the row as the arguments; it makes no other call.
\<close>

theorem render_calls:
  "render self rows renderer =
     renderer @ Table_header (table_header self) # map Table_row rows"
  by (simp add: render_def render_rows_append)

text \<open>
  C3: when \<^verbatim>\<open>collect()\<close> yields the rows \<open>rows\<close>, each of which has a first element,
  \<^verbatim>\<open>produce()\<close> yields exactly the first elements of the rows, in the same order, and
  ends without an exception.
\<close>

theorem produce_first_column:
  "\<forall>row\<in>set rows. row \<noteq> [] \<Longrightarrow> produce rows = (map hd rows, None)"
  by (induction rows) (auto split: list.splits)

theorem produce_first_column_witness:
  "produce [[PyInt 4096, PyStr ''A''], [PyInt 8192, PyStr ''B'']] =
     ([PyInt 4096, PyInt 8192], None)"
  using produce_first_column [of "[[PyInt 4096, PyStr ''A''], [PyInt 8192, PyStr ''B'']]"]
  by simp

lemma produce_general:
  "produce rows =
     (map hd (takeWhile (\<lambda>r. r \<noteq> []) rows),
      if [] \<in> set rows then Some IndexError else None)"
  by (induction rows) (auto split: list.splits)


section \<open>The active plugin\<close>




lemma framework_checks_independent:
  assumes "\<forall>c\<in>set mds. is_active (plugin_cls c) = Command_is_active \<or>
             (\<exists>b. is_active (plugin_cls c) = ProfileCommand_is_active b)"
  shows "independent_checks mds"
  unfolding independent_checks_def reports_active_def
proof (intro ballI allI)
  fix c c' t
  assume "c \<in> set mds" "c' \<in> set mds"
  then have c: "is_active (plugin_cls c) = Command_is_active \<or>
             (\<exists>b. is_active (plugin_cls c) = ProfileCommand_is_active b)"
    and c': "is_active (plugin_cls c') = Command_is_active \<or>
             (\<exists>b. is_active (plugin_cls c') = ProfileCommand_is_active b)"
    using assms by blast+
  show "fst (is_active (plugin_cls c') (snd (is_active (plugin_cls c) t))) =
        fst (is_active (plugin_cls c') t)"
    using c c'
    by (auto simp: Command_is_active_def ProfileCommand_is_active_def get_profile_def
             split: option.splits if_splits)
qed



section \<open>Rows as dictionaries\<close>

lemma truthy_get_Some: "truthy (dict_get c k) \<Longrightarrow> c k = Some (dict_get c k)"
  by (auto simp: dict_get_def split: option.splits)

lemma dictify_loop_Dicts:
  assumes h: "header h = map Dict cols"
    and t: "\<forall>c\<in>set cols. truthy (dict_get c ''cname'')"
  shows "idx \<le> length cols \<Longrightarrow> dictify_loop h idx row result =
           (if idx + length row \<le> length cols
            then Inr (result(map (\<lambda>c. dict_get c ''cname'') (drop idx cols) [\<mapsto>] row))
            else Inl IndexError)"
proof (induction row arbitrary: idx result)
  case Nil
  then show ?case by simp
next
  case (Cons v row)
  show ?case
  proof (cases "idx < length cols")
    case True
    then have c: "header h ! idx = Dict (cols ! idx)" using h by simp
    have k: "(cols ! idx) ''cname'' = Some (dict_get (cols ! idx) ''cname'')"
      using t True by (simp add: truthy_get_Some)
    have d: "drop idx cols = cols ! idx # drop (Suc idx) cols"
      using True by (simp add: Cons_nth_drop_Suc)
    let ?k = "dict_get (cols ! idx) ''cname''"
    have ih: "dictify_loop h (Suc idx) row (result(?k \<mapsto> v)) =
           (if Suc idx + length row \<le> length cols
            then Inr (result(?k \<mapsto> v,
                   map (\<lambda>c. dict_get c ''cname'') (drop (Suc idx) cols) [\<mapsto>] row))
            else Inl IndexError)"
      by (rule Cons.IH) (use True in simp)
    have step: "dictify_loop h idx (v # row) result =
                dictify_loop h (Suc idx) row (result(?k \<mapsto> v))"
      using True c k h by simp
    show ?thesis unfolding step ih d by simp
  next
    case False
    then show ?thesis using h Cons.prems by simp
  qed
qed

lemma dictify_Dicts:
  assumes "PluginHeader_init (map Dict cols) = Inr h"
  shows "dictify h row =
           (if length row \<le> length cols
            then Inr (Map.empty(map (\<lambda>c. dict_get c ''cname'') cols [\<mapsto>] row))
            else Inl IndexError)"
  using dictify_loop_Dicts[of h cols 0 row Map.empty] PluginHeader_init_Inr[OF assms]
  by (simp add: dictify_def)

lemma collect_as_dicts_arity:
  assumes "PluginHeader_init (map Dict cols) = Inr (table_header self)"
    and "\<forall>row\<in>set rows. length row = length cols"
  shows "collect_as_dicts self rows =
           (map (\<lambda>row. Map.empty(map (\<lambda>c. dict_get c ''cname'') cols [\<mapsto>] row)) rows, None)"
  using assms(2)
proof (induction rows)
  case Nil
  then show ?case by simp
next
  case (Cons row rows)
  then show ?case using dictify_Dicts[OF assms(1), of row] by simp
qed

lemma upds_nth:
  assumes "distinct ks" "length vs = length ks" "i < length ks"
  shows "(Map.empty(ks [\<mapsto>] vs)) (ks ! i) = Some (vs ! i)"
  using assms
proof (induction ks arbitrary: vs i)
  case Nil
  then show ?case by simp
next
  case (Cons k ks)
  then obtain v vs' where vs: "vs = v # vs'" by (cases vs) auto
  show ?case
  proof (cases i)
    case 0
    then show ?thesis using Cons.prems vs by (simp add: map_upds_twist)
  next
    case (Suc j)
    then have "ks ! j \<noteq> k" using Cons.prems by auto
    then show ?thesis using Cons.prems vs Suc Cons.IH[of vs' j]
      by (simp add: map_upds_twist)
  qed
qed

lemma dom_upds_arity:
  "length vs = length ks \<Longrightarrow> dom (Map.empty(ks [\<mapsto>] vs)) = set ks"
  by simp

text \<open>
  C4, as the code has it: for a schema built by the constructor and rows that have as
  many values as the schema has columns, \<^verbatim>\<open>collect_as_dicts()\<close> ends without an
  exception and yields one dictionary for each row of \<^verbatim>\<open>collect()\<close>, in the same
  order; the keys of each dictionary are the \<^verbatim>\<open>cname\<close>s of the schema, and the
  \<^verbatim>\<open>cname\<close> of the \<open>i\<close>-th column is mapped to the \<open>i\<close>-th value of the row. For
  rows of another length the statement fails (see the counterexample): \<open>dictify_Dicts\<close>
  says what \<^verbatim>\<open>dictify\<close> does there.
\<close>

theorem collect_as_dicts_matching_rows:
  assumes "PluginHeader_init (map Dict cols) = Inr (table_header self)"
    and "\<forall>row\<in>set rows. length row = length cols"
  shows "collect_as_dicts self rows =
           (map (\<lambda>row. Map.empty(map (\<lambda>c. dict_get c ''cname'') cols [\<mapsto>] row)) rows, None) \<and>
         (\<forall>row\<in>set rows.
            dom (Map.empty(map (\<lambda>c. dict_get c ''cname'') cols [\<mapsto>] row)) =
              set (map (\<lambda>c. dict_get c ''cname'') cols) \<and>
            (\<forall>i<length cols.
               (Map.empty(map (\<lambda>c. dict_get c ''cname'') cols [\<mapsto>] row))
                 (dict_get (cols ! i) ''cname'') = Some (row ! i)))"
proof -
  have d: "distinct (map (\<lambda>c. dict_get c ''cname'') cols)"
    using PluginHeader_init_Inr[OF assms(1)] by blast
  have "\<forall>row\<in>set rows. \<forall>i<length cols.
          (Map.empty(map (\<lambda>c. dict_get c ''cname'') cols [\<mapsto>] row))
            (dict_get (cols ! i) ''cname'') = Some (row ! i)"
  proof (intro ballI allI impI)
    fix row i assume r: "row \<in> set rows" and i: "i < length cols"
    have l: "length row = length (map (\<lambda>c. dict_get c ''cname'') cols)"
      using assms(2) r by simp
    show "(Map.empty(map (\<lambda>c. dict_get c ''cname'') cols [\<mapsto>] row))
            (dict_get (cols ! i) ''cname'') = Some (row ! i)"
      using upds_nth[OF d l, of i] i by simp
  qed
  moreover have "\<forall>row\<in>set rows.
      dom (Map.empty(map (\<lambda>c. dict_get c ''cname'') cols [\<mapsto>] row)) =
        set (map (\<lambda>c. dict_get c ''cname'') cols)"
    using assms(2) by simp
  ultimately show ?thesis
    using collect_as_dicts_arity[OF assms] by blast
qed

lemma example_plugin_header:
  "PluginHeader_init (map Dict [offset_column, name_column]) = Inr (table_header example_plugin)"
  using example_header_init by (simp add: example_plugin_def)

theorem collect_as_dicts_matching_rows_witness:
  "PluginHeader_init (map Dict [offset_column, name_column]) = Inr (table_header example_plugin) \<and>
   collect_as_dicts example_plugin [[PyInt 4096, PyStr ''A''], [PyInt 8192, PyStr ''B'']] =
     ([[PyStr ''offset'' \<mapsto> PyInt 4096, PyStr ''name'' \<mapsto> PyStr ''A''],
       [PyStr ''offset'' \<mapsto> PyInt 8192, PyStr ''name'' \<mapsto> PyStr ''B'']], None)"
proof -
  have l: "\<forall>row\<in>set [[PyInt 4096, PyStr ''A''], [PyInt 8192, PyStr ''B'']].
      length row = length [offset_column, name_column]" by simp
  show ?thesis
    using collect_as_dicts_matching_rows [OF example_plugin_header l] example_plugin_header
    by (simp add: dict_get_def offset_column_def name_column_def)
qed

text \<open>
  The claim C4 as stated (any schema with any row) fails: with the two-column schema
  of the specification's example, a row of one value gives a dictionary with the single
  key \<^verbatim>\<open>offset\<close>, and a row of three values raises \<^verbatim>\<open>IndexError\<close> before anything
  is yielded.
\<close>

theorem collect_as_dicts_short_row_counterexample:
  "PluginHeader_init [Dict offset_column, Dict name_column] = Inr (table_header example_plugin) \<and>
   collect_as_dicts example_plugin [[PyInt 4096]] = ([[PyStr ''offset'' \<mapsto> PyInt 4096]], None) \<and>
   dom [PyStr ''offset'' \<mapsto> PyInt 4096] \<noteq> {PyStr ''offset'', PyStr ''name''} \<and>
   collect_as_dicts example_plugin [[PyInt 4096, PyStr ''A'', PyInt 7]] = ([], Some IndexError)"
proof -
  have 1: "dictify example_header [PyInt 4096] = Inr [PyStr ''offset'' \<mapsto> PyInt 4096]"
    by (simp add: dictify_def example_header_def offset_column_def)
  have 2: "dictify example_header [PyInt 4096, PyStr ''A'', PyInt 7] = Inl IndexError"
    by (simp add: dictify_def example_header_def offset_column_def name_column_def)
  show ?thesis
    using 1 2 example_header_init by (simp add: example_plugin_def)
qed

section \<open>Reflection\<close>

lemma by_cname_member:
  assumes "PluginHeader_init (map Dict cols) = Inr h" and "c \<in> set cols"
  shows "by_cname h (dict_get c ''cname'') = Some c \<and> c \<noteq> Map.empty"
proof -
  note r = PluginHeader_init_Inr[OF assms(1)]
  from r have t: "\<forall>c\<in>set cols. truthy (dict_get c ''cname'')" by (rule conjunct1)
  from r have dc: "distinct (map (\<lambda>c. dict_get c ''cname'') cols)" by (elim conjE)
  from r have bc: "by_cname h = map_of (map (\<lambda>c. (dict_get c ''cname'', c)) cols)"
    by (elim conjE)
  have d: "distinct (map fst (map (\<lambda>c. (dict_get c ''cname'', c)) cols))"
    using dc by (simp add: comp_def)
  have m: "(dict_get c ''cname'', c) \<in> set (map (\<lambda>c. (dict_get c ''cname'', c)) cols)"
    unfolding set_map by (rule image_eqI[where x=c], rule refl, rule assms(2))
  have s: "map_of (map (\<lambda>c. (dict_get c ''cname'', c)) cols) (dict_get c ''cname'') = Some c"
    using map_of_is_SomeI[OF d m] .
  have "truthy (dict_get c ''cname'')" using t assms(2) by (rule bspec)
  then have ne: "c \<noteq> Map.empty" by (rule truthy_cname_nonempty)
  show ?thesis using s ne unfolding bc by (rule conjI)
qed

lemma by_cname_unknown:
  assumes "PluginHeader_init (map Dict cols) = Inr h"
    and "member \<notin> set (map (\<lambda>c. dict_get c ''cname'') cols)"
  shows "by_cname h member = None"
proof -
  have "member \<notin> fst ` set (map (\<lambda>c. (dict_get c ''cname'', c)) cols)"
    using assms(2) by (simp add: image_image)
  then show ?thesis
    using PluginHeader_init_Inr[OF assms(1)] by (simp add: map_of_eq_None_iff)
qed

text \<open>
  C10: for a key that is not the \<^verbatim>\<open>cname\<close> of a column of the schema,
  \<^verbatim>\<open>reflect\<close> raises \<^verbatim>\<open>KeyError\<close>. The witness takes the human name
  \<^verbatim>\<open>Offset\<close>, which \<^verbatim>\<open>find_column\<close> resolves to the column \<^verbatim>\<open>offset\<close>.
\<close>

theorem reflect_unknown_cname:
  assumes "PluginHeader_init (map Dict cols) = Inr (table_header self)"
    and "member \<notin> set (map (\<lambda>c. dict_get c ''cname'') cols)"
  shows "reflect self member = Inl KeyError"
  using by_cname_unknown[OF assms] by (simp add: reflect_def)

theorem reflect_unknown_cname_witness:
  "PluginHeader_init (map Dict [offset_column, name_column]) = Inr (table_header example_plugin) \<and>
   PyStr ''Offset'' \<notin> set (map (\<lambda>c. dict_get c ''cname'') [offset_column, name_column]) \<and>
   find_column (table_header example_plugin) (PyStr ''Offset'') = Some offset_column \<and>
   reflect example_plugin (PyStr ''Offset'') = Inl KeyError"
proof -
  have n: "PyStr ''Offset'' \<notin> set (map (\<lambda>c. dict_get c ''cname'') [offset_column, name_column])"
    by (simp add: dict_get_def offset_column_def name_column_def)
  have f: "find_column (table_header example_plugin) (PyStr ''Offset'') = Some offset_column"
    by (simp add: find_column_def example_plugin_def example_header_def)
  show ?thesis
    using reflect_unknown_cname [OF example_plugin_header n] example_plugin_header n f
    by simp
qed

text \<open>
  C9, as the code has it: for the \<^verbatim>\<open>cname\<close> of a column \<open>c\<close> of the schema,
  \<^verbatim>\<open>reflect\<close> returns the declared type when it is a class; when it is a non-empty
  string and the instance has a profile, it returns what \<^verbatim>\<open>object_classes\<close> of the
  profile of the instance (\<^verbatim>\<open>self.profile\<close>) holds under that name, and \<^verbatim>\<open>None\<close>
  when that profile does not define the name; when the column declares no type (or a
  false one) it returns \<^verbatim>\<open>None\<close>. The profile of the instance is the one the
  constructor bound (\<open>TypedProfileCommand_init_binds\<close>); \<^verbatim>\<open>reflect\<close> does not read
  the session.
\<close>

theorem reflect_declared_type:
  assumes "PluginHeader_init (map Dict cols) = Inr (table_header self)" and "c \<in> set cols"
  shows "(\<forall>t. dict_get c ''type'' = PyClass t \<longrightarrow>
            reflect self (dict_get c ''cname'') = Inr (PyClass t)) \<and>
         (\<forall>n p. dict_get c ''type'' = PyStr n \<and> n \<noteq> [] \<and> profile self = Some p \<longrightarrow>
            reflect self (dict_get c ''cname'') = Inr (dict_get (object_classes p) n)) \<and>
         (\<forall>n p. dict_get c ''type'' = PyStr n \<and> n \<noteq> [] \<and> profile self = Some p \<and>
                object_classes p n = None \<longrightarrow>
            reflect self (dict_get c ''cname'') = Inr PyNone) \<and>
         (c ''type'' = None \<or> \<not> truthy (dict_get c ''type'') \<longrightarrow>
            reflect self (dict_get c ''cname'') = Inr PyNone)"
proof -
  note b = by_cname_member[OF assms]
  have 1: "\<forall>t. dict_get c ''type'' = PyClass t \<longrightarrow>
            reflect self (dict_get c ''cname'') = Inr (PyClass t)"
    using b by (simp add: reflect_def)
  have 2: "\<forall>n p. dict_get c ''type'' = PyStr n \<and> n \<noteq> [] \<and> profile self = Some p \<longrightarrow>
            reflect self (dict_get c ''cname'') = Inr (dict_get (object_classes p) n)"
    using b by (simp add: reflect_def)
  have 3: "\<forall>n p. dict_get c ''type'' = PyStr n \<and> n \<noteq> [] \<and> profile self = Some p \<and>
                object_classes p n = None \<longrightarrow>
            reflect self (dict_get c ''cname'') = Inr PyNone"
  proof (intro allI impI)
    fix n p
    assume a: "dict_get c ''type'' = PyStr n \<and> n \<noteq> [] \<and> profile self = Some p \<and>
                object_classes p n = None"
    then have "reflect self (dict_get c ''cname'') = Inr (dict_get (object_classes p) n)"
      using 2 by blast
    moreover have "dict_get (object_classes p) n = PyNone"
      using a by (simp add: dict_get_def)
    ultimately show "reflect self (dict_get c ''cname'') = Inr PyNone" by simp
  qed
  have "c ''type'' = None \<longrightarrow> \<not> truthy (dict_get c ''type'')"
    by (simp add: dict_get_def)
  moreover have "\<not> truthy (dict_get c ''type'') \<longrightarrow>
            reflect self (dict_get c ''cname'') = Inr PyNone"
    using b by (cases "dict_get c ''type''") (simp_all add: reflect_def)
  ultimately show ?thesis using 1 2 3 by blast
qed

lemma TypedProfileCommand_init_binds:
  assumes "TypedProfileCommand_init th req prof kwargs = Inr self"
  shows "\<exists>s. session self = ArgSession s \<and> profile self = profile_obj s \<and> table_header self = th"
  using assms
  by (auto simp: TypedProfileCommand_init_def ProfileCommand_init_def HasParameter_def
        get_profile_def set_profile_def Let_def
        split: sum.splits arg.splits option.splits if_splits)

theorem reflect_declared_type_witness:
  "PluginHeader_init (map Dict [offset_column, name_column]) = Inr (table_header example_plugin) \<and>
   offset_column \<in> set [offset_column, name_column] \<and>
   reflect example_plugin (PyStr ''offset'') = Inr (PyClass ''Address'') \<and>
   reflect example_plugin (PyStr ''name'') = Inr PyNone"
proof -
  have m1: "offset_column \<in> set [offset_column, name_column]"
   and m2: "name_column \<in> set [offset_column, name_column]" by simp_all
  show ?thesis
    using reflect_declared_type [OF example_plugin_header m1]
          reflect_declared_type [OF example_plugin_header m2] example_plugin_header
    by (simp add: dict_get_def offset_column_def name_column_def example_plugin_def
          profile_one_def)
qed

text \<open>
  The claim C9 as stated (the name is resolved in the profile that is active in the
  session when \<^verbatim>\<open>reflect\<close> is called) fails: a plugin is constructed on a session
  whose profile defines \<^verbatim>\<open>address\<close>; a second construction on the same session
  installs a profile that does not define it; \<^verbatim>\<open>reflect\<close> on the first plugin still
  returns the class of the first profile, not \<^verbatim>\<open>None\<close>.
\<close>

theorem reflect_session_profile_counterexample:
  "TypedProfileCommand_init example_header True None [''session'' \<mapsto> ArgSession session_one] =
     Inr example_plugin \<and>
   ProfileCommand_init True (Some profile_two) [''session'' \<mapsto> session example_plugin] =
     Inr \<lparr>session = ArgSession session_two, profile = Some profile_two\<rparr> \<and>
   get_profile session_two = (Some profile_two, session_two) \<and>
   dict_get (object_classes profile_two) ''address'' = PyNone \<and>
   reflect example_plugin (PyStr ''offset'') = Inr (PyClass ''Address'') \<and>
   reflect example_plugin (PyStr ''offset'') \<noteq>
     Inr (dict_get (object_classes profile_two) ''address'')"
proof -
  have a: "TypedProfileCommand_init example_header True None
             [''session'' \<mapsto> ArgSession session_one] = Inr example_plugin"
    by (simp add: TypedProfileCommand_init_def ProfileCommand_init_def HasParameter_def
          get_profile_def session_one_def example_plugin_def)
  have b: "ProfileCommand_init True (Some profile_two) [''session'' \<mapsto> session example_plugin] =
     Inr \<lparr>session = ArgSession session_two, profile = Some profile_two\<rparr>"
    by (simp add: ProfileCommand_init_def HasParameter_def get_profile_def set_profile_def
          session_one_def session_two_def example_plugin_def)
  have c: "get_profile session_two = (Some profile_two, session_two)"
    by (simp add: get_profile_def session_two_def)
  have d: "dict_get (object_classes profile_two) ''address'' = PyNone"
    by (simp add: dict_get_def profile_two_def)
  have e: "reflect example_plugin (PyStr ''offset'') = Inr (PyClass ''Address'')"
    by (simp add: reflect_def example_plugin_def example_header_def offset_column_def
          dict_get_def profile_one_def)
  show ?thesis using a b c d e by simp
qed

end
